theory Spec2Isabelle
  imports Complex_Main "HOL-Library.Sublist"
begin

section \<open>JavaScript values used by the viewer\<close>

text \<open>
  A JavaScript number is modelled by its mathematical value: a rational, one of the two
  infinities, or NaN. Rounding of doubles and the sign of zero are not modelled, so
  \<open>-0\<close> and \<open>0\<close> are the same number here, as they are under \<open>===\<close>.
\<close>

datatype jsnum = Num rat | PosInf | NegInf | NaN

fun js_neg :: "jsnum \<Rightarrow> jsnum" where
  "js_neg (Num r) = Num (- r)"
| "js_neg PosInf = NegInf"
| "js_neg NegInf = PosInf"
| "js_neg NaN = NaN"

fun js_add :: "jsnum \<Rightarrow> jsnum \<Rightarrow> jsnum" where
  "js_add (Num a) (Num b) = Num (a + b)"
| "js_add NaN _ = NaN"
| "js_add _ NaN = NaN"
| "js_add PosInf NegInf = NaN"
| "js_add NegInf PosInf = NaN"
| "js_add PosInf _ = PosInf"
| "js_add _ PosInf = PosInf"
| "js_add NegInf _ = NegInf"
| "js_add _ NegInf = NegInf"

text \<open>Unary minus applied to an array read: \<open>-undefined\<close> is NaN.\<close>

definition js_neg_undef :: "jsnum option \<Rightarrow> jsnum" where
  "js_neg_undef v = (case v of None \<Rightarrow> NaN | Some n \<Rightarrow> js_neg n)"

text \<open>Truthiness of a string-or-null: null and the empty string are falsy.\<close>

definition truthy :: "string option \<Rightarrow> bool" where
  "truthy v = (case v of None \<Rightarrow> False | Some s \<Rightarrow> s \<noteq> [])"

text \<open>\<open>a || b\<close> where \<open>a\<close> is a string or null and \<open>b\<close> a string.\<close>

definition str_or :: "string option \<Rightarrow> string \<Rightarrow> string" where
  "str_or a b = (case a of None \<Rightarrow> b | Some s \<Rightarrow> if s = [] then b else s)"

text \<open>\<open>xs[i]\<close>: \<open>undefined\<close> outside the array.\<close>

definition js_index :: "'a list \<Rightarrow> int \<Rightarrow> 'a option" where
  "js_index xs i = (if 0 \<le> i \<and> i < int (length xs) then Some (xs ! nat i) else None)"

text \<open>\<open>s.split(c)\<close> for a one-character separator; the result is never empty.\<close>

fun split_chr :: "char \<Rightarrow> string \<Rightarrow> string list" where
  "split_chr c [] = [ [] ]"
| "split_chr c (x # xs) =
     (if x = c then [] # split_chr c xs
      else (case split_chr c xs of [] \<Rightarrow> [ [x] ] | t # ts \<Rightarrow> (x # t) # ts))"

text \<open>\<open>xs.join(sep)\<close> on an array of strings.\<close>

fun join :: "string \<Rightarrow> string list \<Rightarrow> string" where
  "join sep [] = []"
| "join sep [x] = x"
| "join sep (x # y # ys) = x @ sep @ join sep (y # ys)"

text \<open>\<open>s.trim()\<close>, for the ASCII white space characters.\<close>

definition is_space :: "char \<Rightarrow> bool" where
  "is_space c = (c \<in> set [CHR '' '', CHR 0x09, CHR 0x0A, CHR 0x0B, CHR 0x0C, CHR 0x0D])"

definition trim :: "string \<Rightarrow> string" where
  "trim s = rev (dropWhile is_space (rev (dropWhile is_space s)))"

text \<open>\<open>s.replace(pat, rep)\<close> with a string pattern: the first occurrence only.\<close>

fun replace_first :: "string \<Rightarrow> string \<Rightarrow> string \<Rightarrow> string" where
  "replace_first pat rep [] = (if pat = [] then rep else [])"
| "replace_first pat rep (c # cs) =
     (if prefix pat (c # cs) then rep @ drop (length pat) (c # cs)
      else c # replace_first pat rep cs)"


section \<open>Map data (Map.tsx)\<close>


record SpielMapElement =
  ID :: string
  KARTEN_ID :: string
  X :: jsnum
  Y :: jsnum
  W :: jsnum
  H :: jsnum
  XCOORDS :: "string option"
  YCOORDS :: "string option"
  el_TYPE :: jsnum
  STAND_ID :: "string option"
  NAME :: "string option"

record SpielCompany =
  company_id :: jsnum
  company_name :: string
  company_description :: string
  company_website :: "string option"
  company_booths :: "string list"

record Exhibitor =
  ex_stand :: string
  ex_title :: string
  ex_description :: string
  ex_website :: "string option"
  ex_booths :: "string list"

record MapStandExhibitor =
  stand :: string
  title :: string
  description :: string
  logo :: "string option"
  website :: string
  url :: string
  booths :: "string list"
  all_matches :: "Exhibitor list"



subsection \<open>Geometry adapter\<close>

text \<open>
  The conversion of one element's coordinates inside \<open>mapStands\<close>. \<open>Number\<close> is the
  built-in conversion of a string to a number, taken as a parameter \<open>number_of\<close>.
\<close>

definition rectangle_points :: "SpielMapElement \<Rightarrow> (jsnum \<times> jsnum) list" where
  "rectangle_points element =
     [(js_neg (Y element), X element),
      (js_neg (Y element), js_add (X element) (W element)),
      (js_neg (js_add (Y element) (H element)), js_add (X element) (W element)),
      (js_neg (js_add (Y element) (H element)), X element)]"

definition polygon_points :: "(string \<Rightarrow> jsnum) \<Rightarrow> string \<Rightarrow> string \<Rightarrow> (jsnum \<times> jsnum) list" where
  "polygon_points number_of xs ys =
     (let xCoords = map number_of (split_chr CHR ''|'' xs);
          yCoords = map number_of (split_chr CHR ''|'' ys)
      in map (\<lambda>(x, i). (js_neg_undef (js_index yCoords (int i)), x))
             (zip xCoords [0 ..< length xCoords]))"

definition element_points :: "(string \<Rightarrow> jsnum) \<Rightarrow> SpielMapElement \<Rightarrow> (jsnum \<times> jsnum) list" where
  "element_points number_of element =
     (case (XCOORDS element, YCOORDS element) of
        (Some xs, Some ys) \<Rightarrow>
          if xs \<noteq> [] \<and> ys \<noteq> [] then polygon_points number_of xs ys
          else rectangle_points element
      | _ \<Rightarrow> rectangle_points element)"


subsection \<open>Exhibitor matcher\<close>

definition standId_of :: "SpielMapElement \<Rightarrow> string" where
  "standId_of element = str_or (STAND_ID element) (str_or (NAME element) [])"

text \<open>\<open>standId.split(".").pop() || standId\<close>\<close>

definition boothName_of :: "string \<Rightarrow> string" where
  "boothName_of standId =
     (let popped = last (split_chr CHR ''.'' standId)
      in if popped = [] then standId else popped)"

definition matchingCompanies :: "SpielCompany list \<Rightarrow> string \<Rightarrow> SpielCompany list" where
  "matchingCompanies companies boothName =
     filter (\<lambda>company. boothName \<in> set (company_booths company)) companies"

text \<open>\<open>matchingCompanies.find((c) => c.website)?.website || ""\<close>\<close>

definition first_website :: "SpielCompany list \<Rightarrow> string" where
  "first_website ms =
     (case find (\<lambda>c. truthy (company_website c)) ms of
        None \<Rightarrow> []
      | Some c \<Rightarrow> str_or (company_website c) [])"

text \<open>The \<open>exhibitor\<close> object built for one element inside \<open>mapStands\<close>.\<close>

definition element_exhibitor :: "SpielCompany list \<Rightarrow> SpielMapElement \<Rightarrow> MapStandExhibitor" where
  "element_exhibitor companies element =
     (let standId = standId_of element;
          boothName = boothName_of standId;
          ms = matchingCompanies companies boothName
      in \<lparr> stand = standId,
           title = (if length ms > 0 then join '' / '' (map company_name ms)
                    else str_or (NAME element) ''Unknown''),
           description = (if length ms > 0
                          then join [CHR 0x0A, CHR 0x0A] (map company_description ms)
                          else ''No description available''),
           logo = None,
           website = first_website ms,
           url = first_website ms,
           booths = (case ms of [] \<Rightarrow> [boothName] | c # _ \<Rightarrow> company_booths c),
           all_matches = map (\<lambda>c. \<lparr> ex_stand = standId, ex_title = company_name c,
                                      ex_description = company_description c,
                                      ex_website = company_website c,
                                      ex_booths = company_booths c \<rparr>) ms \<rparr>)"





section \<open>Print zoom (EasyPrintControl.tsx)\<close>

text \<open>The object literal, as the list of its own properties in source order.\<close>

definition hallZoomLevels :: "(string \<times> jsnum) list" where
  "hallZoomLevels =
     [(''1'', Num (- 165 / 100)),
      (''2'', Num (- 165 / 100)),
      (''3'', Num (- 275 / 100)),
      (''4'', Num (- 2)),
      (''5'', Num (- 225 / 100)),
      (''6'', Num (- 175 / 100)),
      (''7'', Num (- 2)),
      (''GA'', Num (- 275 / 100)),
      (''FG1'', Num (- 175 / 100)),
      (''FG2'', Num (- 2)),
      (''FG3'', Num (- 1))]"

text \<open>
  Reading \<open>hallZoomLevels[hallId]\<close> finds an own property of the literal, or else a member
  that every object inherits from \<open>Object.prototype\<close>: eleven functions and the accessor
  \<open>__proto__\<close>, which returns the prototype object. The value read is a zoom level or such
  an inherited member.
\<close>

datatype zoom_value = Level jsnum | Inherited string

definition object_prototype_members :: "string list" where
  "object_prototype_members =
     [''constructor'', ''hasOwnProperty'', ''isPrototypeOf'', ''propertyIsEnumerable'',
      ''toLocaleString'', ''toString'', ''valueOf'', ''__proto__'', ''__defineGetter__'',
      ''__defineSetter__'', ''__lookupGetter__'', ''__lookupSetter__'']"

definition hallZoomLevels_at :: "string \<Rightarrow> zoom_value option" where
  "hallZoomLevels_at h =
     (case map_of hallZoomLevels h of
        Some n \<Rightarrow> Some (Level n)
      | None \<Rightarrow> if h \<in> set object_prototype_members then Some (Inherited h) else None)"

text \<open>
  \<open>v || d\<close>: undefined, 0 and NaN are falsy; a function or an object is truthy.
\<close>

definition zoom_or :: "zoom_value option \<Rightarrow> zoom_value \<Rightarrow> zoom_value" where
  "zoom_or v d =
     (case v of
        None \<Rightarrow> d
      | Some (Inherited m) \<Rightarrow> Inherited m
      | Some (Level n) \<Rightarrow> if n = NaN \<or> n = Num 0 then d else Level n)"

text \<open>\<open>customZoom !== undefined ? customZoom : (hallId ? hallZoomLevels[hallId] : -2) || -2\<close>\<close>

definition printZoom :: "jsnum option \<Rightarrow> string option \<Rightarrow> zoom_value" where
  "printZoom customZoom hallId =
     (case customZoom of
        Some z \<Rightarrow> Level z
      | None \<Rightarrow>
          zoom_or (case hallId of
                     None \<Rightarrow> Some (Level (Num (- 2)))
                   | Some h \<Rightarrow>
                       if h = [] then Some (Level (Num (- 2))) else hallZoomLevels_at h)
                  (Level (Num (- 2))))"


section \<open>Favorites lists (Map.tsx)\<close>

subsection \<open>The browser\<close>

text \<open>
  The library functions the component calls are parameters of the model: the two
  functions of the compression library, where decompression may throw, return null or
  return a string, and the lookup \<open>new URLSearchParams(q).get(k)\<close>.
\<close>

datatype decompressed = Throws | Null | Text string

record browser =
  compressToEncodedURIComponent :: "string \<Rightarrow> string"
  decompressFromEncodedURIComponent :: "string \<Rightarrow> decompressed"
  searchParams_get :: "string \<Rightarrow> string \<Rightarrow> string option"

text \<open>
  \<open>localStorage\<close> is the list of its entries in the order in which \<open>Object.keys\<close>
  enumerates them. The values under the favorites keys are JSON arrays of strings, written
  by \<open>JSON.stringify\<close> and read by \<open>JSON.parse\<close>; an entry holds the array its text encodes.
\<close>

type_synonym storage = "(string \<times> string list) list"

definition getItem :: "storage \<Rightarrow> string \<Rightarrow> string list option" where
  "getItem store k = map_of store k"

fun setItem :: "string \<Rightarrow> string list \<Rightarrow> storage \<Rightarrow> storage" where
  "setItem k v [] = [(k, v)]"
| "setItem k v (p # ps) = (if fst p = k then (k, v) # ps else p # setItem k v ps)"

definition removeItem :: "string \<Rightarrow> storage \<Rightarrow> storage" where
  "removeItem k store = filter (\<lambda>p. fst p \<noteq> k) store"

text \<open>The storage key of a list, the template literal \<open>favorites:${name}\<close>.\<close>

definition favorites_key :: "string \<Rightarrow> string" where
  "favorites_key name = ''favorites:'' @ name"

text \<open>\<open>JSON.parse(localStorage.getItem(k) || "[]")\<close>\<close>

definition stored_list :: "storage \<Rightarrow> string \<Rightarrow> string list" where
  "stored_list store k = (case getItem store k of None \<Rightarrow> [] | Some v \<Rightarrow> v)"

text \<open>
  \<open>Object.keys(localStorage).filter((k) => k.startsWith("favorites:"))
     .map((k) => k.replace("favorites:", ""))\<close>
\<close>

definition list_names :: "storage \<Rightarrow> string list" where
  "list_names store =
     map (\<lambda>k. replace_first ''favorites:'' [] k)
         (filter (\<lambda>k. prefix ''favorites:'' k) (map fst store))"

subsection \<open>Component state\<close>

text \<open>
  The React state of \<open>Map\<close> that the favorites code reads and writes, together with the
  two browser stores it mirrors into and the number of \<open>console.warn\<close> calls so far.
  \<open>fragment\<close> is the URL fragment without its leading \<open>#\<close>, as the browser holds it.
\<close>

record app_state =
  listKey :: "string option"
  favorites :: "string list"
  favoriteLists :: "string list"
  newListName :: string
  localStorage :: storage
  fragment :: string
  warnings :: nat

text \<open>Reading \<open>window.location.hash\<close>: empty for an empty fragment, else \<open>#\<close> and the fragment.\<close>

definition location_hash :: "app_state \<Rightarrow> string" where
  "location_hash st = (if fragment st = [] then [] else CHR ''#'' # fragment st)"

text \<open>
  Assigning \<open>v\<close> to \<open>window.location.hash\<close>: one leading \<open>#\<close> is dropped, tabs and
  newlines are removed, and every character of the fragment percent-encode set (the control
  characters, the blank, the double quote, \<open><\<close>, \<open>>\<close>, the backtick and everything above \<open>~\<close>) is
  written as \<open>%\<close> and two hexadecimal digits. A string stands for the bytes of its UTF-8
  encoding, so a character outside ASCII is encoded byte by byte.
\<close>

definition hex_digit :: "nat \<Rightarrow> char" where
  "hex_digit n = char_of (if n < 10 then 48 + n else 55 + n)"

definition percent_encode :: "char \<Rightarrow> string" where
  "percent_encode c =
     [CHR ''%'', hex_digit ((of_char c :: nat) div 16), hex_digit ((of_char c :: nat) mod 16)]"

definition in_fragment_encode_set :: "char \<Rightarrow> bool" where
  "in_fragment_encode_set c =
     ((of_char c :: nat) \<le> 0x20 \<or> c = CHR 0x22 \<or> c = CHR ''<'' \<or> c = CHR ''>'' \<or>
      c = CHR 0x60 \<or> (of_char c :: nat) > 0x7E)"

definition assign_hash :: "string \<Rightarrow> string" where
  "assign_hash v =
     (let input = (if prefix ''#'' v then drop 1 v else v);
          kept = filter (\<lambda>c. c \<notin> set [CHR 0x09, CHR 0x0A, CHR 0x0D]) input
      in concat (map (\<lambda>c. if in_fragment_encode_set c then percent_encode c else [c]) kept))"

text \<open>A template literal renders a null \<open>listKey\<close> as the text \<open>null\<close>.\<close>

definition template_key :: "string option \<Rightarrow> string" where
  "template_key k = (case k of None \<Rightarrow> ''null'' | Some s \<Rightarrow> s)"

subsection \<open>generateRandomListName\<close>

definition adjectives :: "string list" where
  "adjectives = [''brave'', ''cheeky'', ''happy'', ''sleepy'', ''sneaky'', ''gentle'', ''noisy'',
                 ''bouncy'']"

definition animals :: "string list" where
  "animals = [''otter'', ''fox'', ''tiger'', ''panda'', ''sloth'', ''owl'', ''lizard'', ''turtle'']"

text \<open>
  \<open>words[Math.floor(r * words.length)]\<close> inside a template literal, where \<open>r\<close> is the value
  \<open>Math.random()\<close> returned; \<open>undefined\<close> is rendered as the text \<open>undefined\<close>.
\<close>

definition random_word :: "string list \<Rightarrow> rat \<Rightarrow> string" where
  "random_word ws r =
     (case js_index ws \<lfloor>r * of_nat (length ws)\<rfloor> of None \<Rightarrow> ''undefined'' | Some w \<Rightarrow> w)"

definition generateRandomListName :: "rat \<Rightarrow> rat \<Rightarrow> string" where
  "generateRandomListName r1 r2 = random_word adjectives r1 @ ''-'' @ random_word animals r2"

subsection \<open>loadInitialList\<close>

text \<open>
  The body of the \<open>try\<close> block that decodes the \<open>favs\<close> parameter: \<open>Inl ()\<close> when the
  library throws, else the value assigned to \<open>favsFromUrl\<close>.
\<close>

definition favs_try :: "browser \<Rightarrow> string option \<Rightarrow> unit + string list" where
  "favs_try br favEncoded =
     (case favEncoded of
        None \<Rightarrow> Inr []
      | Some enc \<Rightarrow>
          if enc = [] then Inr []
          else (case decompressFromEncodedURIComponent br enc of
                  Throws \<Rightarrow> Inl ()
                | Null \<Rightarrow> Inr []
                | Text decoded \<Rightarrow>
                    if decoded = [] then Inr []
                    else Inr (filter (\<lambda>f. f \<noteq> [])
                                (map trim (split_chr CHR '','' decoded)))))"

text \<open>
  The \<open>try\<close>/\<open>catch\<close>: the list adopted, and whether the \<open>catch\<close> branch logged a
  warning.
\<close>

definition favsFromUrl :: "browser \<Rightarrow> string option \<Rightarrow> string list \<times> bool" where
  "favsFromUrl br favEncoded =
     (case favs_try br favEncoded of Inl _ \<Rightarrow> ([], True) | Inr fs \<Rightarrow> (fs, False))"

text \<open>
  \<open>r1\<close> and \<open>r2\<close> are the two values \<open>Math.random()\<close> returns if the legacy list is migrated.
\<close>

definition loadInitialList :: "browser \<Rightarrow> rat \<Rightarrow> rat \<Rightarrow> app_state \<Rightarrow> app_state" where
  "loadInitialList br r1 r2 st =
     (let h = location_hash st;
          hash = (if prefix ''#'' h then drop 1 h else h);
          keyFromHash = searchParams_get br (''?'' @ hash) ''list'';
          favEncoded = searchParams_get br (''?'' @ hash) ''favs''
      in if truthy keyFromHash then
           (case favsFromUrl br favEncoded of
              (fs, warned) \<Rightarrow>
                st\<lparr>listKey := keyFromHash, favorites := fs,
                   warnings := warnings st + (if warned then 1 else 0)\<rparr>)
         else
           (let legacy = stored_list (localStorage st) ''favorites'' in
            if length legacy > 0 then
              (let newKey = generateRandomListName r1 r2;
                   compressed = compressToEncodedURIComponent br (join '','' legacy)
               in st\<lparr>localStorage :=
                        removeItem ''favorites''
                          (setItem (favorites_key newKey) legacy (localStorage st)),
                      listKey := Some newKey,
                      favorites := legacy,
                      fragment := assign_hash (''list='' @ newKey @ ''&favs='' @ compressed)\<rparr>)
            else
              (case list_names (localStorage st) of
                 firstKey # _ \<Rightarrow>
                   st\<lparr>listKey := Some firstKey,
                      favorites := stored_list (localStorage st) (favorites_key firstKey)\<rparr>
               | [] \<Rightarrow> st\<lparr>listKey := None, favorites := []\<rparr>)))"

subsection \<open>The effects on \<open>[favorites, listKey]\<close>\<close>

text \<open>Sync favorites to localStorage and URL.\<close>

definition sync_effect :: "browser \<Rightarrow> app_state \<Rightarrow> app_state" where
  "sync_effect br st =
     (if \<not> truthy (listKey st) then st
      else
        (let compressed = compressToEncodedURIComponent br (join '','' (favorites st))
         in st\<lparr>localStorage :=
                  setItem (favorites_key (template_key (listKey st))) (favorites st)
                          (localStorage st),
                fragment :=
                  assign_hash (''list='' @ template_key (listKey st) @ ''&favs='' @ compressed)\<rparr>))"

text \<open>Load all favorite list names.\<close>

definition updateLists :: "app_state \<Rightarrow> app_state" where
  "updateLists st = st\<lparr>favoriteLists := list_names (localStorage st)\<rparr>"

text \<open>
  Both effects run, in source order, after a render in which \<open>favorites\<close> or \<open>listKey\<close>
  changed. Every \<open>setFavorites\<close> call of the component installs a freshly built array, so
  they run after every handler that calls it.
\<close>

definition run_effects :: "browser \<Rightarrow> app_state \<Rightarrow> app_state" where
  "run_effects br st = updateLists (sync_effect br st)"

subsection \<open>Event handlers\<close>

definition toggleFavorite :: "string \<Rightarrow> app_state \<Rightarrow> app_state" where
  "toggleFavorite lbl st =
     (let prev = favorites st;
          updated = (if lbl \<in> set prev then filter (\<lambda>f. f \<noteq> lbl) prev else prev @ [lbl])
      in st\<lparr>localStorage :=
               setItem (favorites_key (template_key (listKey st))) updated (localStorage st),
             favorites := updated\<rparr>)"

text \<open>The button that selects the list \<open>key\<close>.\<close>

definition select_list :: "string \<Rightarrow> app_state \<Rightarrow> app_state" where
  "select_list key st =
     (let stored = stored_list (localStorage st) (favorites_key key)
      in st\<lparr>listKey := Some key,
             favorites := stored,
             fragment := assign_hash (''list='' @ key @ ''&favs='' @ join '','' stored)\<rparr>)"

text \<open>
  The button that deletes the list \<open>key\<close>; \<open>confirmed\<close> is the answer of
  \<open>window.confirm\<close>. The second component tells whether \<open>listKey\<close> and \<open>favorites\<close> were set.
\<close>

definition delete_list :: "browser \<Rightarrow> bool \<Rightarrow> string \<Rightarrow> app_state \<Rightarrow> app_state \<times> bool" where
  "delete_list br confirmed key st =
     (if \<not> confirmed then (st, False)
      else
        (let st1 = st\<lparr>localStorage := removeItem (favorites_key key) (localStorage st)\<rparr>;
             st2 =
               (if Some key = listKey st then
                  (let allKeys = list_names (localStorage st1);
                       fallbackKey = (case allKeys of [] \<Rightarrow> None
                                      | k # _ \<Rightarrow> if k = [] then None else Some k)
                   in case fallbackKey of
                        Some fk \<Rightarrow>
                          (let fallbackFavorites =
                                 stored_list (localStorage st1) (favorites_key fk);
                               compressed =
                                 compressToEncodedURIComponent br (join '','' fallbackFavorites)
                           in st1\<lparr>listKey := Some fk,
                                   favorites := fallbackFavorites,
                                   fragment := assign_hash (''list='' @ fk @ ''&favs='' @ compressed)\<rparr>)
                      | None \<Rightarrow> st1\<lparr>listKey := None, favorites := [], fragment := assign_hash []\<rparr>)
                else st1)
         in (st2\<lparr>favoriteLists := list_names (localStorage st2)\<rparr>, Some key = listKey st)))"

text \<open>The Create button; the second component tells whether the list was created.\<close>

definition create_list :: "app_state \<Rightarrow> app_state \<times> bool" where
  "create_list st =
     (let newKey = trim (newListName st)
      in if newKey \<noteq> [] \<and> newKey \<notin> set (favoriteLists st) then
           (st\<lparr>localStorage := setItem (favorites_key newKey) [] (localStorage st),
               listKey := Some newKey,
               favorites := [],
               newListName := [],
               fragment := assign_hash (''list='' @ newKey)\<rparr>, True)
         else (st, False))"

subsection \<open>Events\<close>

text \<open>
  One user or browser event: the handler, followed by the effects when the handler set
  \<open>favorites\<close> or \<open>listKey\<close>. \<open>Load\<close> is the first mount and every \<open>hashchange\<close>.
\<close>

datatype event =
    Load rat rat
  | Toggle string
  | Select string
  | Delete bool string
  | TypeName string
  | Create

fun step :: "browser \<Rightarrow> event \<Rightarrow> app_state \<Rightarrow> app_state" where
  "step br (Load r1 r2) st = run_effects br (loadInitialList br r1 r2 st)"
| "step br (Toggle lbl) st = run_effects br (toggleFavorite lbl st)"
| "step br (Select key) st = run_effects br (select_list key st)"
| "step br (Delete confirmed key) st =
     (case delete_list br confirmed key st of
        (st', changed) \<Rightarrow> if changed then run_effects br st' else st')"
| "step br (TypeName s) st = st\<lparr>newListName := s\<rparr>"
| "step br Create st =
     (case create_list st of (st', changed) \<Rightarrow> if changed then run_effects br st' else st')"


section \<open>Properties stated over the model\<close>

text \<open>
  The condition under which an event's handler calls \<open>setFavorites\<close> and \<open>setListKey\<close>,
  that is, under which it changes which list is active or what it holds.
\<close>

fun mutates :: "event \<Rightarrow> app_state \<Rightarrow> bool" where
  "mutates (Load r1 r2) st = True"
| "mutates (Toggle lbl) st = True"
| "mutates (Select key) st = True"
| "mutates (Delete confirmed key) st = (confirmed \<and> Some key = listKey st)"
| "mutates (TypeName s) st = False"
| "mutates Create st = (trim (newListName st) \<noteq> [] \<and> trim (newListName st) \<notin> set (favoriteLists st))"

text \<open>
  The active list \<open>k\<close> is consistent: the storage entry \<open>favorites:k\<close> holds the in-memory
  sequence, and the fragment is what assigning the text \<open>list=k&favs=c\<close> leaves in the URL,
  where \<open>c\<close> is the compressed comma-join of that sequence.
\<close>

definition consistent :: "browser \<Rightarrow> app_state \<Rightarrow> bool" where
  "consistent br st =
     (case listKey st of
        None \<Rightarrow> False
      | Some k \<Rightarrow>
          getItem (localStorage st) (favorites_key k) = Some (favorites st) \<and>
          fragment st =
            assign_hash (''list='' @ k @ ''&favs='' @
                         compressToEncodedURIComponent br (join '','' (favorites st))))"

text \<open>The substring of a label after its last dot; the whole label when it has no dot.\<close>

definition after_last_dot :: "string \<Rightarrow> string" where
  "after_last_dot s = rev (takeWhile (\<lambda>c. c \<noteq> CHR ''.'') (rev s))"

text \<open>
  The merged title as the specification words it: the companies are matched on the
  substring after the last dot, their names joined; without a match the element's own name,
  or \<open>Unknown\<close> if it has none.
\<close>

definition title_by_suffix :: "SpielCompany list \<Rightarrow> SpielMapElement \<Rightarrow> string" where
  "title_by_suffix companies element =
     (let ms = filter (\<lambda>c. after_last_dot (standId_of element) \<in> set (company_booths c))
                      companies
      in if ms \<noteq> [] then join '' / '' (map company_name ms)
         else str_or (NAME element) ''Unknown'')"

subsection \<open>Concrete inputs for the examples\<close>

text \<open>What \<open>Number\<close> returns on a non-empty string of decimal digits; NaN stands for the rest.\<close>

definition is_digit :: "char \<Rightarrow> bool" where
  "is_digit c = (48 \<le> (of_char c :: nat) \<and> (of_char c :: nat) \<le> 57)"

definition digits_number :: "string \<Rightarrow> jsnum" where
  "digits_number s =
     (if s \<noteq> [] \<and> list_all is_digit s
      then Num (of_nat (foldl (\<lambda>a c. 10 * a + (of_char c - 48)) 0 s))
      else NaN)"

definition blank_element :: SpielMapElement where
  "blank_element =
     \<lparr> ID = ''e1'', KARTEN_ID = ''1'', X = Num 5, Y = Num 5, W = Num 2, H = Num 3,
       XCOORDS = None, YCOORDS = None, el_TYPE = Num 0, STAND_ID = Some ''1.E211'',
       NAME = Some ''E211'' \<rparr>"

definition company_A :: SpielCompany where
  "company_A = \<lparr> company_id = Num 1, company_name = ''A'', company_description = ''first'',
                 company_website = None, company_booths = [''E211''] \<rparr>"

definition company_B :: SpielCompany where
  "company_B = \<lparr> company_id = Num 2, company_name = ''B'', company_description = ''second'',
                 company_website = Some ''https://b.example'', company_booths = [''E211'', ''E212''] \<rparr>"

definition company_dot :: SpielCompany where
  "company_dot = \<lparr> company_id = Num 3, company_name = ''Acme'', company_description = ''third'',
                   company_website = None, company_booths = [''A.''] \<rparr>"


text \<open>
  A browser for the examples: reversal stands in for the compression, and decompression
  throws on a text containing \<open>!\<close> and returns null on one containing \<open>~\<close>. The parameter
  lookup is that of \<open>URLSearchParams\<close> on a query without \<open>+\<close> and \<open>%\<close>: a leading \<open>?\<close> is
  dropped, the query is split at \<open>&\<close>, each part at its first \<open>=\<close>, and the first part with
  the name gives the value.
\<close>

fun lookup_param :: "string list \<Rightarrow> string \<Rightarrow> string option" where
  "lookup_param [] k = None"
| "lookup_param (p # ps) k =
     (if takeWhile (\<lambda>c. c \<noteq> CHR ''='') p = k
      then Some (drop 1 (dropWhile (\<lambda>c. c \<noteq> CHR ''='') p))
      else lookup_param ps k)"

definition sample_get :: "string \<Rightarrow> string \<Rightarrow> string option" where
  "sample_get q k =
     (let body = (if prefix ''?'' q then drop 1 q else q)
      in if body = [] then None else lookup_param (split_chr CHR ''&'' body) k)"

definition sample_decompress :: "string \<Rightarrow> decompressed" where
  "sample_decompress s =
     (if CHR ''!'' \<in> set s then Throws else if CHR ''~'' \<in> set s then Null else Text (rev s))"

definition sample_browser :: browser where
  "sample_browser =
     \<lparr> compressToEncodedURIComponent = rev,
       decompressFromEncodedURIComponent = sample_decompress,
       searchParams_get = sample_get \<rparr>"

definition empty_state :: app_state where
  "empty_state =
     \<lparr> listKey = None, favorites = [], favoriteLists = [], newListName = [],
       localStorage = [], fragment = [], warnings = 0 \<rparr>"

definition trip_state :: app_state where
  "trip_state =
     \<lparr> listKey = Some ''trip'', favorites = [''A'', ''B''], favoriteLists = [''trip'', ''west''],
       newListName = [],
       localStorage = [(''favorites:trip'', [''A'', ''B'']), (''theme'', []),
                       (''favorites:west'', [''W1''])],
       fragment = ''list=trip&favs=B,A'', warnings = 0 \<rparr>"

definition collision_state :: app_state where
  "collision_state =
     empty_state\<lparr>localStorage := [(''favorites'', [''X1'', ''X2'']),
                                      (''favorites:sleepy-turtle'', [''Z9''])]\<rparr>"

definition dot_element :: SpielMapElement where
  "dot_element = blank_element\<lparr>STAND_ID := Some ''A.'', NAME := Some ''Corner''\<rparr>"

definition polygon_element :: SpielMapElement where
  "polygon_element =
     blank_element\<lparr>XCOORDS := Some ''0|10|10|0'', YCOORDS := Some ''0|0|10|10''\<rparr>"


definition solo_state :: app_state where
  "solo_state =
     \<lparr> listKey = Some ''trip'', favorites = [''A'', ''B''], favoriteLists = [''trip''],
       newListName = [],
       localStorage = [(''theme'', []), (''favorites:trip'', [''A'', ''B''])],
       fragment = ''list=trip&favs=B,A'', warnings = 0 \<rparr>"

definition shared_link_state :: app_state where
  "shared_link_state = empty_state\<lparr>fragment := ''list=mine''\<rparr>"

definition ampersand_state :: app_state where
  "ampersand_state = empty_state\<lparr>newListName := ''a&b''\<rparr>"

definition rejected_link_state :: app_state where
  "rejected_link_state = empty_state\<lparr>fragment := ''list=mine&favs=~''\<rparr>"

definition broken_link_state :: app_state where
  "broken_link_state = empty_state\<lparr>fragment := ''list=mine&favs=!''\<rparr>"


section \<open>Auxiliary facts\<close>

lemma split_chr_nonempty: "split_chr c s \<noteq> []"
  by (induction s) (auto split: list.splits)

lemma length_polygon_points:
  "length (polygon_points n xs ys) = length (split_chr CHR ''|'' xs)"
  by (simp add: polygon_points_def Let_def)

lemma nth_polygon_points:
  assumes "i < length (split_chr CHR ''|'' xs)"
  shows "polygon_points n xs ys ! i =
     (js_neg_undef (if i < length (split_chr CHR ''|'' ys)
                    then Some (n (split_chr CHR ''|'' ys ! i)) else None),
      n (split_chr CHR ''|'' xs ! i))"
  using assms by (simp add: polygon_points_def Let_def js_index_def)

lemma polygon_points_zip:
  assumes "length (split_chr CHR ''|'' xs) = length (split_chr CHR ''|'' ys)"
  shows "polygon_points n xs ys =
     map (\<lambda>(x, y). (js_neg (n y), n x)) (zip (split_chr CHR ''|'' xs) (split_chr CHR ''|'' ys))"
  using assms
  by (intro nth_equalityI) (simp_all add: length_polygon_points nth_polygon_points js_neg_undef_def)

lemma split_chr_no_sep: "c \<notin> set s \<Longrightarrow> split_chr c s = [s]"
  by (induction s) auto

lemma split_chr_sep: "c \<in> set s \<Longrightarrow> \<exists>a b r. split_chr c s = a # b # r"
proof (induction s)
  case Nil then show ?case by simp
next
  case (Cons x xs)
  show ?case
  proof (cases "x = c")
    case True
    then show ?thesis using split_chr_nonempty[of c xs] by (cases "split_chr c xs") auto
  next
    case False
    with Cons.prems have "c \<in> set xs" by simp
    from Cons.IH[OF this] False show ?thesis by auto
  qed
qed

lemma last_split_chr: "last (split_chr c s) = rev (takeWhile (\<lambda>x. x \<noteq> c) (rev s))"
proof (induction s)
  case Nil then show ?case by simp
next
  case (Cons x xs)
  show ?case
  proof (cases "c \<in> set xs")
    case True
    from split_chr_sep[OF this] obtain a b r where s: "split_chr c xs = a # b # r" by blast
    have "last (split_chr c (x # xs)) = last (split_chr c xs)"
      using s by simp
    moreover have "takeWhile (\<lambda>x. x \<noteq> c) (rev xs @ [x]) = takeWhile (\<lambda>x. x \<noteq> c) (rev xs)"
      using True by (auto simp: takeWhile_append)
    ultimately show ?thesis using Cons.IH by simp
  next
    case False
    then show ?thesis
      by (auto simp: split_chr_no_sep takeWhile_append)
  qed
qed

lemma getItem_setItem:
  "getItem (setItem k v store) k' = (if k' = k then Some v else getItem store k')"
  by (induction store) (auto simp: getItem_def)

lemma getItem_removeItem:
  "getItem (removeItem k store) k' = (if k' = k then None else getItem store k')"
  by (induction store) (auto simp: getItem_def removeItem_def)

lemma replace_first_prefix:
  "prefix pat s \<Longrightarrow> replace_first pat rep s = rep @ drop (length pat) s"
  by (cases s) auto

lemma favorites_key_inj [simp]: "favorites_key a = favorites_key b \<longleftrightarrow> a = b"
  by (simp add: favorites_key_def)

lemma favorites_key_not_legacy [simp]:
  "favorites_key a \<noteq> ''favorites''" "''favorites'' \<noteq> favorites_key a"
  by (simp_all add: favorites_key_def)

lemma favorites_key_null: "favorites_key ''null'' = ''favorites:null''"
  by (simp add: favorites_key_def)

lemma list_name_of_key:
  assumes "prefix ''favorites:'' k"
  shows "favorites_key (replace_first ''favorites:'' [] k) = k"
proof -
  from assms obtain r where "k = ''favorites:'' @ r" by (auto simp: prefix_def)
  with assms show ?thesis by (simp add: replace_first_prefix favorites_key_def)
qed

lemma list_name_of_favorites_key:
  "prefix ''favorites:'' (favorites_key n) \<and> replace_first ''favorites:'' [] (favorites_key n) = n"
  by (simp add: favorites_key_def)

lemma list_names_iff:
  "n \<in> set (list_names store) \<longleftrightarrow> getItem store (favorites_key n) \<noteq> None"
proof -
  have "n \<in> set (list_names store) \<longleftrightarrow> favorites_key n \<in> fst ` set store"
  proof
    assume "n \<in> set (list_names store)"
    then obtain k where k: "k \<in> fst ` set store" "prefix ''favorites:'' k"
      and n: "n = replace_first ''favorites:'' [] k"
      by (auto simp: list_names_def)
    from list_name_of_key[OF k(2)] n k(1) show "favorites_key n \<in> fst ` set store" by simp
  next
    assume a: "favorites_key n \<in> fst ` set store"
    with list_name_of_favorites_key[of n] show "n \<in> set (list_names store)"
      unfolding list_names_def set_map set_filter by force
  qed
  then show ?thesis by (simp add: getItem_def map_of_eq_None_iff)
qed

lemma assign_hash_empty [simp]: "assign_hash [] = []"
  by (simp add: assign_hash_def)

lemma hash_of_location: 
  "(if prefix ''#'' (location_hash st) then drop 1 (location_hash st) else location_hash st) = fragment st"
  by (simp add: location_hash_def)

lemma boothName_of_suffix:
  "boothName_of s = (if after_last_dot s = [] then s else after_last_dot s)"
  by (simp add: boothName_of_def after_last_dot_def last_split_chr Let_def)

lemma listKey_run_effects [simp]: "listKey (run_effects br st) = listKey st"
  by (simp add: run_effects_def updateLists_def sync_effect_def Let_def)

lemma favorites_run_effects [simp]: "favorites (run_effects br st) = favorites st"
  by (simp add: run_effects_def updateLists_def sync_effect_def Let_def)

lemma warnings_run_effects [simp]: "warnings (run_effects br st) = warnings st"
  by (simp add: run_effects_def updateLists_def sync_effect_def Let_def)

lemma run_effects_no_list:
  "\<not> truthy (listKey st) \<Longrightarrow>
     localStorage (run_effects br st) = localStorage st \<and> fragment (run_effects br st) = fragment st"
  by (simp add: run_effects_def updateLists_def sync_effect_def)

lemma run_effects_active:
  assumes "listKey st = Some k" "k \<noteq> []"
  shows "localStorage (run_effects br st) = setItem (favorites_key k) (favorites st) (localStorage st)"
    and "fragment (run_effects br st) =
           assign_hash (''list='' @ k @ ''&favs='' @
                        compressToEncodedURIComponent br (join '','' (favorites st)))"
  using assms
  by (simp_all add: run_effects_def updateLists_def sync_effect_def truthy_def template_key_def Let_def)

lemma consistent_run_effects:
  "truthy (listKey st) \<Longrightarrow> consistent br (run_effects br st)"
  by (auto simp: consistent_def truthy_def run_effects_active getItem_setItem split: option.splits)

lemma digits_number_0: "digits_number ''0'' = Num 0" by (simp add: digits_number_def is_digit_def)

lemma digits_number_10: "digits_number ''10'' = Num 10" by (simp add: digits_number_def is_digit_def)

lemma first_website_eq:
  "first_website ms =
     (case filter (\<lambda>w. w \<noteq> []) (map (\<lambda>c. str_or (company_website c) []) ms) of
        [] \<Rightarrow> [] | w # _ \<Rightarrow> w)"
  by (induction ms) (auto simp: first_website_def truthy_def str_or_def split: option.splits)

lemma loadInitialList_list:
  assumes "truthy (searchParams_get br (''?'' @ fragment st) ''list'')"
  shows "loadInitialList br r1 r2 st =
           st\<lparr>listKey := searchParams_get br (''?'' @ fragment st) ''list'',
              favorites := fst (favsFromUrl br (searchParams_get br (''?'' @ fragment st) ''favs'')),
              warnings := warnings st +
                (if snd (favsFromUrl br (searchParams_get br (''?'' @ fragment st) ''favs''))
                 then 1 else 0)\<rparr>"
  using assms by (simp add: loadInitialList_def hash_of_location Let_def split: prod.splits)

lemma list_names_removeItem:
  "n \<in> set (list_names (removeItem (favorites_key key) store)) \<longleftrightarrow>
     n \<noteq> key \<and> n \<in> set (list_names store)"
  by (auto simp: list_names_iff getItem_removeItem)

lemma delete_inactive:
  assumes "listKey st \<noteq> Some key"
  shows "step br (Delete True key) st =
           st\<lparr>localStorage := removeItem (favorites_key key) (localStorage st),
              favoriteLists := list_names (removeItem (favorites_key key) (localStorage st))\<rparr>"
  using assms by (auto simp: delete_list_def Let_def)

lemma delete_active_fallback:
  assumes "listKey st = Some key"
    and "list_names (removeItem (favorites_key key) (localStorage st)) = fk # rest" "fk \<noteq> []"
  shows "step br (Delete True key) st =
           run_effects br
             (st\<lparr>localStorage := removeItem (favorites_key key) (localStorage st),
                 listKey := Some fk,
                 favorites := stored_list (removeItem (favorites_key key) (localStorage st))
                                          (favorites_key fk),
                 fragment := assign_hash (''list='' @ fk @ ''&favs='' @
                    compressToEncodedURIComponent br
                      (join '','' (stored_list (removeItem (favorites_key key) (localStorage st))
                                              (favorites_key fk)))),
                 favoriteLists := list_names (removeItem (favorites_key key) (localStorage st))\<rparr>)"
  using assms by (simp add: delete_list_def Let_def)

lemma delete_active_last:
  assumes "listKey st = Some key"
    and "list_names (removeItem (favorites_key key) (localStorage st)) = []"
  shows "step br (Delete True key) st =
           run_effects br
             (st\<lparr>localStorage := removeItem (favorites_key key) (localStorage st),
                 listKey := None, favorites := [], fragment := [],
                 favoriteLists := []\<rparr>)"
  using assms by (simp add: delete_list_def Let_def)

lemma delete_active_unnamed:
  assumes "listKey st = Some key"
    and "list_names (removeItem (favorites_key key) (localStorage st)) = [] # rest"
  shows "step br (Delete True key) st =
           run_effects br
             (st\<lparr>localStorage := removeItem (favorites_key key) (localStorage st),
                 listKey := None, favorites := [], fragment := [],
                 favoriteLists := [] # rest\<rparr>)"
  using assms by (simp add: delete_list_def Let_def)

lemma delete_removes_entry:
  "getItem (localStorage (step br (Delete True key) st)) (favorites_key key) = None"
proof (cases "listKey st = Some key")
  case False
  show ?thesis by (simp only: delete_inactive[OF False]) (simp add: getItem_removeItem)
next
  case True
  let ?rem = "removeItem (favorites_key key) (localStorage st)"
  show ?thesis
  proof (cases "list_names ?rem")
    case Nil
    show ?thesis
      by (simp only: delete_active_last[OF True Nil])
         (simp add: run_effects_no_list truthy_def getItem_removeItem)
  next
    case (Cons fk rest)
    show ?thesis
    proof (cases "fk = []")
      case e: True
      show ?thesis
        using Cons unfolding e
        by (simp only: delete_active_unnamed[OF True])
           (simp add: run_effects_no_list truthy_def getItem_removeItem)
    next
      case ne: False
      have "fk \<in> set (list_names ?rem)" using Cons by simp
      then have "fk \<noteq> key" using list_names_removeItem[of fk key "localStorage st"] by blast
      then show ?thesis
        by (simp only: delete_active_fallback[OF True Cons ne])
           (simp add: run_effects_active[where k = fk] ne getItem_setItem getItem_removeItem)
    qed
  qed
qed

text \<open>
  Consistency of the active list is an invariant of every event, also of those that leave
  the active list alone (typing a name, a rejected creation, a cancelled deletion, the
  deletion of another list).
\<close>

lemma consistent_cong:
  assumes "listKey st' = listKey st" "favorites st' = favorites st" "fragment st' = fragment st"
    and "\<And>k. listKey st = Some k \<Longrightarrow>
           getItem (localStorage st') (favorites_key k) = getItem (localStorage st) (favorites_key k)"
  shows "consistent br st' = consistent br st"
  using assms by (auto simp: consistent_def split: option.splits)

lemma consistency_preserved:
  assumes inv: "truthy (listKey st) \<longrightarrow> consistent br st"
    and act: "truthy (listKey (step br ev st))"
  shows "consistent br (step br ev st)"
proof (cases ev)
  case (Load r1 r2)
  with act show ?thesis by (simp add: consistent_run_effects)
next
  case (Toggle l)
  with act show ?thesis by (simp add: consistent_run_effects)
next
  case (Select k)
  with act show ?thesis by (simp add: consistent_run_effects)
next
  case (TypeName s)
  have "consistent br (st\<lparr>newListName := s\<rparr>) = consistent br st"
    by (rule consistent_cong) simp_all
  with TypeName inv act show ?thesis by simp
next
  case Create
  show ?thesis
  proof (cases "snd (create_list st)")
    case True
    with Create act show ?thesis
      by (cases "create_list st") (simp add: consistent_run_effects)
  next
    case False
    then have "create_list st = (st, False)"
      by (auto simp: create_list_def Let_def split: if_splits)
    with Create inv act show ?thesis by simp
  qed
next
  case (Delete c key)
  show ?thesis
  proof (cases "snd (delete_list br c key st)")
    case True
    with Delete act show ?thesis
      by (cases "delete_list br c key st") (simp add: consistent_run_effects)
  next
    case False
    show ?thesis
    proof (cases c)
      case no: False
      with Delete inv act show ?thesis by (simp add: delete_list_def)
    next
      case yes: True
      from False yes have other: "listKey st \<noteq> Some key"
        by (auto simp: delete_list_def Let_def)
      have eq: "step br ev st =
           st\<lparr>localStorage := removeItem (favorites_key key) (localStorage st),
              favoriteLists := list_names (removeItem (favorites_key key) (localStorage st))\<rparr>"
        using delete_inactive[OF other, of br] by (simp only: Delete yes)
      have "consistent br (step br ev st) = consistent br st"
        unfolding eq using other
        by (intro consistent_cong) (auto simp: getItem_removeItem)
      moreover have "listKey (step br ev st) = listKey st" by (simp add: eq)
      ultimately show ?thesis using inv act by simp
    qed
  qed
qed


text \<open>
  What the sync effect establishes: after every event whose handler changes the active list
  or its contents, if a list is active, its storage entry holds the in-memory sequence and
  the fragment is what assigning \<open>list=<listName>&favs=<c>\<close> leaves in the URL.
\<close>

lemma mutation_establishes_consistency:
  assumes "mutates ev st" and "truthy (listKey (step br ev st))"
  shows "consistent br (step br ev st)"
proof (cases ev)
  case (Load r1 r2)
  with assms(2) show ?thesis by (simp add: consistent_run_effects)
next
  case (Toggle l)
  with assms(2) show ?thesis by (simp add: consistent_run_effects)
next
  case (Select k)
  with assms(2) show ?thesis by (simp add: consistent_run_effects)
next
  case (Delete c k)
  with assms(1) have ch: "snd (delete_list br c k st)"
    by (simp add: delete_list_def Let_def)
  with Delete assms(2) show ?thesis
    by (cases "delete_list br c k st") (simp add: consistent_run_effects)
next
  case (TypeName s)
  with assms(1) show ?thesis by simp
next
  case Create
  with assms(1) have ch: "snd (create_list st)"
    by (simp add: create_list_def Let_def)
  with Create assms(2) show ?thesis
    by (cases "create_list st") (simp add: consistent_run_effects)
qed

text \<open>
  Assigning a text without a leading \<open>#\<close> and without characters of the encode set leaves
  that text as the fragment; a blank in a list name is encoded.
\<close>

lemma tab_newline_encoded:
  "in_fragment_encode_set (CHR 0x09)" "in_fragment_encode_set (CHR 0x0A)"
  "in_fragment_encode_set (CHR 0x0D)"
  by (simp_all add: in_fragment_encode_set_def)

lemma assign_hash_plain:
  assumes "\<not> prefix ''#'' v" "\<forall>c \<in> set v. \<not> in_fragment_encode_set c"
  shows "assign_hash v = v"
proof -
  have "c \<noteq> CHR 0x09 \<and> c \<noteq> CHR 0x0A \<and> c \<noteq> CHR 0x0D" if "c \<in> set v" for c
    using that assms(2) tab_newline_encoded by blast
  then have keep: "filter (\<lambda>c. c \<notin> set [CHR 0x09, CHR 0x0A, CHR 0x0D]) v = v"
    unfolding filter_id_conv by simp
  have "concat (map (\<lambda>c. if in_fragment_encode_set c then percent_encode c else [c]) v) = v"
    using assms(2) by (induction v) simp_all
  with keep assms(1) show ?thesis by (simp add: assign_hash_def)
qed

lemma assign_hash_encodes_blank: "assign_hash ''list=x y&favs=Q'' = ''list=x%20y&favs=Q''"
  by code_simp

text \<open>
  The print zoom by cases: a custom zoom, a hall id of the table, a hall id that names
  neither an entry nor an inherited member, an inherited member, and no hall id.
\<close>

lemma printZoom_cases:
  "printZoom (Some z) hallId = Level z"
  "map_of hallZoomLevels h = Some z \<Longrightarrow> printZoom None (Some h) = Level z"
  "map_of hallZoomLevels h = None \<Longrightarrow> h \<notin> set object_prototype_members \<Longrightarrow>
     printZoom None (Some h) = Level (Num (- 2))"
  "h \<in> set object_prototype_members \<Longrightarrow> printZoom None (Some h) = Inherited h"
  "printZoom None None = Level (Num (- 2))"
proof -
  show "printZoom (Some z) hallId = Level z" by (simp add: printZoom_def)
  show "printZoom None (Some h) = Level z" if "map_of hallZoomLevels h = Some z"
  proof -
    from that have "(h, z) \<in> set hallZoomLevels" by (rule map_of_SomeD)
    then have "h \<noteq> [] \<and> z \<noteq> NaN \<and> z \<noteq> Num 0"
      by (auto simp: hallZoomLevels_def)
    with that show ?thesis by (simp add: printZoom_def zoom_or_def hallZoomLevels_at_def)
  qed
  show "printZoom None (Some h) = Level (Num (- 2))"
    if "map_of hallZoomLevels h = None" "h \<notin> set object_prototype_members"
    using that by (simp add: printZoom_def zoom_or_def hallZoomLevels_at_def)
  show "printZoom None (Some h) = Inherited h" if "h \<in> set object_prototype_members"
  proof -
    have "\<forall>m \<in> set object_prototype_members. m \<noteq> [] \<and> map_of hallZoomLevels m = None"
      by code_simp
    with that have "h \<noteq> []" and "map_of hallZoomLevels h = None" by blast+
    with that show ?thesis by (simp add: printZoom_def zoom_or_def hallZoomLevels_at_def)
  qed
  show "printZoom None None = Level (Num (- 2))" by (simp add: printZoom_def zoom_or_def)
qed

text \<open>
  The generated name is the adjective and the animal at the indices that the random values
  select. Migration stores the legacy array under the key of that name, whether or not the
  key was there before, and leaves every other entry as it was.
\<close>

lemma random_word_index:
  assumes "0 \<le> r" "r < 1" "ws \<noteq> []"
  shows "nat \<lfloor>r * of_nat (length ws)\<rfloor> < length ws"
    and "random_word ws r = ws ! nat \<lfloor>r * of_nat (length ws)\<rfloor>"
proof -
  have lo: "0 \<le> \<lfloor>r * of_nat (length ws)\<rfloor>" using assms by simp
  have "r * of_nat (length ws) < of_nat (length ws)" using assms by simp
  then have hi: "\<lfloor>r * of_nat (length ws)\<rfloor> < int (length ws)" by (simp add: floor_less_iff)
  from lo hi show "nat \<lfloor>r * of_nat (length ws)\<rfloor> < length ws" by linarith
  from lo hi show "random_word ws r = ws ! nat \<lfloor>r * of_nat (length ws)\<rfloor>"
    by (simp add: random_word_def js_index_def)
qed

lemma generateRandomListName_indices:
  assumes "0 \<le> r1" "r1 < 1" "0 \<le> r2" "r2 < 1"
  shows "generateRandomListName r1 r2 =
           adjectives ! nat \<lfloor>r1 * 8\<rfloor> @ ''-'' @ animals ! nat \<lfloor>r2 * 8\<rfloor>"
    and "nat \<lfloor>r1 * 8\<rfloor> < 8" and "nat \<lfloor>r2 * 8\<rfloor> < 8"
proof -
  have a: "adjectives \<noteq> []" "length adjectives = 8" and b: "animals \<noteq> []" "length animals = 8"
    by (simp_all add: adjectives_def animals_def)
  from random_word_index[OF assms(1,2) a(1)] random_word_index[OF assms(3,4) b(1)]
  show "generateRandomListName r1 r2 =
           adjectives ! nat \<lfloor>r1 * 8\<rfloor> @ ''-'' @ animals ! nat \<lfloor>r2 * 8\<rfloor>"
    and "nat \<lfloor>r1 * 8\<rfloor> < 8" and "nat \<lfloor>r2 * 8\<rfloor> < 8"
    by (simp_all add: generateRandomListName_def a b)
qed

lemma legacy_migration_result:
  assumes nolist: "\<not> truthy (searchParams_get br (''?'' @ fragment st) ''list'')"
    and legacy: "getItem (localStorage st) ''favorites'' = Some legacy" "legacy \<noteq> []"
  shows "getItem (localStorage (step br (Load r1 r2) st)) ''favorites'' = None"
    and "getItem (localStorage (step br (Load r1 r2) st))
                 (favorites_key (generateRandomListName r1 r2)) = Some legacy"
    and "getItem (localStorage (step br (Load r1 r2) st)) k =
           (if k = ''favorites'' then None
            else if k = favorites_key (generateRandomListName r1 r2) then Some legacy
            else getItem (localStorage st) k)"
    and "listKey (step br (Load r1 r2) st) = Some (generateRandomListName r1 r2)"
    and "favorites (step br (Load r1 r2) st) = legacy"
    and "fragment (step br (Load r1 r2) st) =
           assign_hash (''list='' @ generateRandomListName r1 r2 @ ''&favs='' @
                        compressToEncodedURIComponent br (join '','' legacy))"
proof -
  let ?name = "generateRandomListName r1 r2"
  let ?c = "compressToEncodedURIComponent br (join '','' legacy)"
  have ne: "?name \<noteq> []" by (simp add: generateRandomListName_def)
  have load: "loadInitialList br r1 r2 st =
      st\<lparr>localStorage := removeItem ''favorites''
                           (setItem (favorites_key ?name) legacy (localStorage st)),
         listKey := Some ?name, favorites := legacy,
         fragment := assign_hash (''list='' @ ?name @ ''&favs='' @ ?c)\<rparr>"
    using nolist legacy
    by (simp add: loadInitialList_def hash_of_location Let_def stored_list_def)
  define st' where "st' = step br (Load r1 r2) st"
  have st: "localStorage st' =
              setItem (favorites_key ?name) legacy
                (removeItem ''favorites''
                   (setItem (favorites_key ?name) legacy (localStorage st)))"
    and fr: "fragment st' = assign_hash (''list='' @ ?name @ ''&favs='' @ ?c)"
    and lk: "listKey st' = Some ?name"
    and fv: "favorites st' = legacy"
    using ne by (simp_all add: st'_def load run_effects_active[where k = ?name])
  show "getItem (localStorage (step br (Load r1 r2) st)) ''favorites'' = None"
    unfolding st'_def[symmetric] by (simp add: st getItem_setItem getItem_removeItem)
  show "getItem (localStorage (step br (Load r1 r2) st)) (favorites_key ?name) = Some legacy"
    unfolding st'_def[symmetric] by (simp add: st getItem_setItem)
  show "getItem (localStorage (step br (Load r1 r2) st)) k =
           (if k = ''favorites'' then None
            else if k = favorites_key ?name then Some legacy
            else getItem (localStorage st) k)"
    unfolding st'_def[symmetric] by (simp add: st getItem_setItem getItem_removeItem)
  show "listKey (step br (Load r1 r2) st) = Some ?name"
    unfolding st'_def[symmetric] by (rule lk)
  show "favorites (step br (Load r1 r2) st) = legacy"
    unfolding st'_def[symmetric] by (rule fv)
  show "fragment (step br (Load r1 r2) st) = assign_hash (''list='' @ ?name @ ''&favs='' @ ?c)"
    unfolding st'_def[symmetric] by (rule fr)
qed


section \<open>The claims\<close>

text \<open>
  C1. The claim asks that after every change of the active list the \<open>list\<close> parameter of
  the fragment is the name of the active list. The code writes the name into the fragment
  without escaping it and reads it back with \<open>URLSearchParams\<close>. Creating the list \<open>a&b\<close>
  makes it the active list with the fragment \<open>list=a&b&favs=\<close> followed by the compressed
  text; the \<open>list\<close> parameter of that fragment is \<open>a\<close>, and the startup resolution that the
  change of the fragment triggers makes \<open>a\<close> the active list, beside the list \<open>a&b\<close>.
\<close>

theorem list_name_not_escaped:
  "mutates Create ampersand_state \<and>
   listKey (step sample_browser Create ampersand_state) = Some ''a&b'' \<and>
   fragment (step sample_browser Create ampersand_state) = ''list=a&b&favs='' \<and>
   searchParams_get sample_browser
     (''?'' @ fragment (step sample_browser Create ampersand_state)) ''list'' = Some ''a'' \<and>
   searchParams_get sample_browser
     (''?'' @ fragment (step sample_browser Create ampersand_state)) ''list''
       \<noteq> listKey (step sample_browser Create ampersand_state) \<and>
   listKey (step sample_browser (Load 0 0) (step sample_browser Create ampersand_state))
     = Some ''a'' \<and>
   localStorage (step sample_browser (Load 0 0) (step sample_browser Create ampersand_state))
     = [(''favorites:a&b'', []), (''favorites:a'', [])]"
  by code_simp

text \<open>
  C2 as stated fails: with the favorites \<open>A, B\<close>, toggling \<open>A\<close> twice gives \<open>B, A\<close>.
\<close>

theorem toggle_twice_reorders:
  "favorites (step sample_browser (Toggle ''A'') (step sample_browser (Toggle ''A'') trip_state))
     \<noteq> favorites trip_state"
  by code_simp

text \<open>
  C2, amended. Toggling a label twice in sequence leaves the favorites unchanged as a set of
  labels. The ordered sequence is unchanged when the label was not in it before the first
  toggle; a label that was in it is removed and then appended, so it ends up last.
\<close>

theorem toggle_twice_favorites:
  "set (favorites (step br (Toggle l) (step br (Toggle l) st))) = set (favorites st) \<and>
   (l \<notin> set (favorites st) \<longrightarrow>
      favorites (step br (Toggle l) (step br (Toggle l) st)) = favorites st) \<and>
   (l \<in> set (favorites st) \<longrightarrow>
      favorites (step br (Toggle l) (step br (Toggle l) st)) =
        filter (\<lambda>f. f \<noteq> l) (favorites st) @ [l])"
  by (auto simp: toggleFavorite_def Let_def filter_id_conv)

theorem toggle_twice_favorites_witness:
  "''C'' \<notin> set (favorites trip_state) \<and> ''A'' \<in> set (favorites trip_state) \<and>
   favorites (step sample_browser (Toggle ''C'') (step sample_browser (Toggle ''C'') trip_state))
     = [''A'', ''B''] \<and>
   favorites (step sample_browser (Toggle ''A'') (step sample_browser (Toggle ''A'') trip_state))
     = [''B'', ''A'']"
  using toggle_twice_favorites[of sample_browser "''C''" trip_state] toggle_twice_favorites[of sample_browser "''A''" trip_state]
  by (simp add: trip_state_def)

text \<open>
  C3. When both coordinate lists are present (neither null nor empty), the element has one
  point per token of \<open>XCOORDS\<close>; point \<open>i\<close> is \<open>(-y, x)\<close> for the numbers \<open>x\<close> and \<open>y\<close> of
  the \<open>i\<close>-th tokens, and for lists of equal length the points are the index-wise pairs.
  Otherwise the points are the four rectangle corners in the fixed order. The two examples
  of the specification follow, the first for every number conversion that reads \<open>0\<close> and
  \<open>10\<close> as these numbers.
\<close>

theorem geometry_adapter_points: 
  "(XCOORDS e = Some xs \<and> YCOORDS e = Some ys \<and> xs \<noteq> [] \<and> ys \<noteq> [] \<longrightarrow>
      length (element_points n e) = length (split_chr CHR ''|'' xs) \<and>
      (\<forall>i < length (split_chr CHR ''|'' xs).
         element_points n e ! i =
           (js_neg_undef (if i < length (split_chr CHR ''|'' ys)
                          then Some (n (split_chr CHR ''|'' ys ! i)) else None),
            n (split_chr CHR ''|'' xs ! i))) \<and>
      (length (split_chr CHR ''|'' xs) = length (split_chr CHR ''|'' ys) \<longrightarrow>
         element_points n e =
           map (\<lambda>(x, y). (js_neg (n y), n x))
               (zip (split_chr CHR ''|'' xs) (split_chr CHR ''|'' ys)))) \<and>
   (\<not> (truthy (XCOORDS e) \<and> truthy (YCOORDS e)) \<longrightarrow>
      element_points n e =
        [(js_neg (Y e), X e),
         (js_neg (Y e), js_add (X e) (W e)),
         (js_neg (js_add (Y e) (H e)), js_add (X e) (W e)),
         (js_neg (js_add (Y e) (H e)), X e)]) \<and>
   (n ''0'' = Num 0 \<and> n ''10'' = Num 10 \<longrightarrow>
      element_points n (e\<lparr>XCOORDS := Some ''0|10|10|0'', YCOORDS := Some ''0|0|10|10''\<rparr>) =
        [(Num 0, Num 0), (Num 0, Num 10), (Num (- 10), Num 10), (Num (- 10), Num 0)]) \<and>
   element_points n (e\<lparr>X := Num 5, Y := Num 5, W := Num 2, H := Num 3,
                         XCOORDS := None, YCOORDS := None\<rparr>) =
     [(Num (- 5), Num 5), (Num (- 5), Num 7), (Num (- 8), Num 7), (Num (- 8), Num 5)]"
proof (intro conjI impI)
  assume a: "XCOORDS e = Some xs \<and> YCOORDS e = Some ys \<and> xs \<noteq> [] \<and> ys \<noteq> []"
  then have ep: "element_points n e = polygon_points n xs ys"
    by (simp add: element_points_def)
  show "length (element_points n e) = length (split_chr CHR ''|'' xs)"
    by (simp add: ep length_polygon_points)
  show "\<forall>i < length (split_chr CHR ''|'' xs).
         element_points n e ! i =
           (js_neg_undef (if i < length (split_chr CHR ''|'' ys)
                          then Some (n (split_chr CHR ''|'' ys ! i)) else None),
            n (split_chr CHR ''|'' xs ! i))"
    by (simp add: ep nth_polygon_points)
  show "element_points n e =
           map (\<lambda>(x, y). (js_neg (n y), n x))
               (zip (split_chr CHR ''|'' xs) (split_chr CHR ''|'' ys))"
    if "length (split_chr CHR ''|'' xs) = length (split_chr CHR ''|'' ys)"
    using that by (simp add: ep polygon_points_zip)
next
  assume "\<not> (truthy (XCOORDS e) \<and> truthy (YCOORDS e))"
  then show "element_points n e =
        [(js_neg (Y e), X e),
         (js_neg (Y e), js_add (X e) (W e)),
         (js_neg (js_add (Y e) (H e)), js_add (X e) (W e)),
         (js_neg (js_add (Y e) (H e)), X e)]"
    by (auto simp: element_points_def rectangle_points_def truthy_def split: option.splits)
next
  assume "n ''0'' = Num 0 \<and> n ''10'' = Num 10"
  then show "element_points n (e\<lparr>XCOORDS := Some ''0|10|10|0'', YCOORDS := Some ''0|0|10|10''\<rparr>) =
        [(Num 0, Num 0), (Num 0, Num 10), (Num (- 10), Num 10), (Num (- 10), Num 0)]"
    by (simp add: element_points_def polygon_points_def Let_def js_index_def js_neg_undef_def upt_rec)
next
  show "element_points n (e\<lparr>X := Num 5, Y := Num 5, W := Num 2, H := Num 3,
                         XCOORDS := None, YCOORDS := None\<rparr>) =
     [(Num (- 5), Num 5), (Num (- 5), Num 7), (Num (- 8), Num 7), (Num (- 8), Num 5)]"
    by (simp add: element_points_def rectangle_points_def)
qed

theorem geometry_adapter_points_witness:
  "XCOORDS polygon_element = Some ''0|10|10|0'' \<and> YCOORDS polygon_element = Some ''0|0|10|10'' \<and>
   length (split_chr CHR ''|'' ''0|10|10|0'') = length (split_chr CHR ''|'' ''0|0|10|10'') \<and>
   digits_number ''0'' = Num 0 \<and> digits_number ''10'' = Num 10 \<and>
   element_points digits_number polygon_element =
     [(Num 0, Num 0), (Num 0, Num 10), (Num (- 10), Num 10), (Num (- 10), Num 0)] \<and>
   \<not> (truthy (XCOORDS blank_element) \<and> truthy (YCOORDS blank_element)) \<and>
   element_points digits_number blank_element =
     [(Num (- 5), Num 5), (Num (- 5), Num 7), (Num (- 8), Num 7), (Num (- 8), Num 5)]"
proof -
  have x: "XCOORDS polygon_element = Some ''0|10|10|0'' \<and>
           YCOORDS polygon_element = Some ''0|0|10|10'' \<and> ''0|10|10|0'' \<noteq> [] \<and> ''0|0|10|10'' \<noteq> []"
    by (simp add: polygon_element_def)
  have sx: "split_chr CHR ''|'' ''0|10|10|0'' = [''0'', ''10'', ''10'', ''0'']" by simp
  have sy: "split_chr CHR ''|'' ''0|0|10|10'' = [''0'', ''0'', ''10'', ''10'']" by simp
  have r: "\<not> (truthy (XCOORDS blank_element) \<and> truthy (YCOORDS blank_element))"
    by (simp add: blank_element_def truthy_def)
  have b: "X blank_element = Num 5 \<and> Y blank_element = Num 5 \<and> W blank_element = Num 2 \<and>
           H blank_element = Num 3"
    by (simp add: blank_element_def)
  show ?thesis
    using geometry_adapter_points[of polygon_element "''0|10|10|0''" "''0|0|10|10''" digits_number]
      geometry_adapter_points[of blank_element "[]" "[]" digits_number] x r b digits_number_0 digits_number_10
    unfolding sx sy by simp
qed

text \<open>
  C4 as stated fails for a label that ends in a dot: for \<open>A.\<close> the substring after the last
  dot is empty, and the code matches the whole label instead. A company with the booth \<open>A.\<close>
  is matched and gives the title, where matching on the empty substring would leave the
  element's own name.
\<close>

theorem exhibitor_merge_trailing_dot:
  "title (element_exhibitor [company_dot] dot_element) \<noteq> title_by_suffix [company_dot] dot_element"
  by code_simp

text \<open>
  C4, amended. The companies matched are those whose booth list contains the substring of
  the stand label after its last dot, or the whole label when that substring is empty. The
  title is their names joined with \<open> / \<close>, or without a match the element's own name, or
  \<open>Unknown\<close> if the name is null or empty; the description joins their descriptions with a
  blank line; the website is the first non-empty website among them; the sibling booths are
  the booth list of the first of them. Companies A and B claiming \<open>E211\<close> give the label
  \<open>1.E211\<close> the title \<open>A / B\<close>.
\<close>

theorem exhibitor_merge:
  "(let lbl = standId_of element;
        b = (if after_last_dot lbl = [] then lbl else after_last_dot lbl);
        ms = filter (\<lambda>c. b \<in> set (company_booths c)) companies;
        ex = element_exhibitor companies element
    in title ex = (if ms \<noteq> [] then join '' / '' (map company_name ms)
                   else (case NAME element of
                           None \<Rightarrow> ''Unknown''
                         | Some nm \<Rightarrow> if nm = [] then ''Unknown'' else nm)) \<and>
       (ms \<noteq> [] \<longrightarrow> description ex = join [CHR 0x0A, CHR 0x0A] (map company_description ms)) \<and>
       website ex = (case filter (\<lambda>w. w \<noteq> []) (map (\<lambda>c. str_or (company_website c) []) ms) of
                       [] \<Rightarrow> [] | w # _ \<Rightarrow> w) \<and>
       (ms \<noteq> [] \<longrightarrow> booths ex = company_booths (hd ms))) \<and>
   title (element_exhibitor [company_A, company_B] (element\<lparr>STAND_ID := Some ''1.E211''\<rparr>)) = ''A / B''"
proof (intro conjI)
  show "title (element_exhibitor [company_A, company_B] (element\<lparr>STAND_ID := Some ''1.E211''\<rparr>)) = ''A / B''"
    by (simp add: element_exhibitor_def standId_of_def str_or_def boothName_of_def
        matchingCompanies_def company_A_def company_B_def Let_def)
next
  define ms where "ms = matchingCompanies companies (boothName_of (standId_of element))"
  have t: "title (element_exhibitor companies element) =
             (if ms \<noteq> [] then join '' / '' (map company_name ms)
              else (case NAME element of
                           None \<Rightarrow> ''Unknown''
                         | Some nm \<Rightarrow> if nm = [] then ''Unknown'' else nm))"
    by (simp add: element_exhibitor_def Let_def ms_def str_or_def)
  have d: "ms \<noteq> [] \<longrightarrow> description (element_exhibitor companies element) =
             join [CHR 0x0A, CHR 0x0A] (map company_description ms)"
    by (simp add: element_exhibitor_def Let_def ms_def)
  have w: "website (element_exhibitor companies element) =
             (case filter (\<lambda>w. w \<noteq> []) (map (\<lambda>c. str_or (company_website c) []) ms) of
                       [] \<Rightarrow> [] | w # _ \<Rightarrow> w)"
    by (simp add: element_exhibitor_def Let_def ms_def first_website_eq)
  have b: "ms \<noteq> [] \<longrightarrow> booths (element_exhibitor companies element) = company_booths (hd ms)"
    by (cases ms) (simp_all add: element_exhibitor_def Let_def ms_def)
  show "let lbl = standId_of element;
        b = (if after_last_dot lbl = [] then lbl else after_last_dot lbl);
        ms = filter (\<lambda>c. b \<in> set (company_booths c)) companies;
        ex = element_exhibitor companies element
    in title ex = (if ms \<noteq> [] then join '' / '' (map company_name ms)
                   else (case NAME element of
                           None \<Rightarrow> ''Unknown''
                         | Some nm \<Rightarrow> if nm = [] then ''Unknown'' else nm)) \<and>
       (ms \<noteq> [] \<longrightarrow> description ex = join [CHR 0x0A, CHR 0x0A] (map company_description ms)) \<and>
       website ex = (case filter (\<lambda>w. w \<noteq> []) (map (\<lambda>c. str_or (company_website c) []) ms) of
                       [] \<Rightarrow> [] | w # _ \<Rightarrow> w) \<and>
       (ms \<noteq> [] \<longrightarrow> booths ex = company_booths (hd ms))"
    using t d w b
    unfolding Let_def ms_def matchingCompanies_def boothName_of_suffix
    by simp
qed

theorem exhibitor_merge_witness:
  "title (element_exhibitor [company_A, company_B] blank_element) = ''A / B'' \<and>
   description (element_exhibitor [company_A, company_B] blank_element)
     = ''first'' @ [CHR 0x0A, CHR 0x0A] @ ''second'' \<and>
   website (element_exhibitor [company_A, company_B] blank_element) = ''https://b.example'' \<and>
   booths (element_exhibitor [company_A, company_B] blank_element) = [''E211''] \<and>
   title (element_exhibitor [company_dot] dot_element) = ''Acme'' \<and>
   title (element_exhibitor [] dot_element) = ''Corner''"
proof -
  have l1: "standId_of blank_element = ''1.E211''" by code_simp
  have a1: "after_last_dot ''1.E211'' = ''E211''" by code_simp
  have l2: "standId_of dot_element = ''A.''" by code_simp
  have a2: "after_last_dot ''A.'' = []" by code_simp
  show ?thesis
    using exhibitor_merge[of blank_element "[company_A, company_B]"] exhibitor_merge[of dot_element "[company_dot]"]
      exhibitor_merge[of dot_element "[]"]
    unfolding Let_def l1 a1 l2 a2
    by (simp add: company_A_def company_B_def company_dot_def str_or_def dot_element_def
        blank_element_def)
qed

text \<open>
  C5 as stated fails where it promises a warning for every malformed input: only the
  \<open>catch\<close> branch logs one. For a library that rejects a text by returning null, the favorites
  are empty and nothing is logged.
\<close>

theorem rejected_favs_no_warning:
  "searchParams_get sample_browser (''?'' @ fragment rejected_link_state) ''list'' = Some ''mine'' \<and>
   searchParams_get sample_browser (''?'' @ fragment rejected_link_state) ''favs'' = Some ''~'' \<and>
   decompressFromEncodedURIComponent sample_browser ''~'' = Null \<and>
   favorites (step sample_browser (Load 0 0) rejected_link_state) = [] \<and>
   warnings (step sample_browser (Load 0 0) rejected_link_state) = warnings rejected_link_state"
  by code_simp

text \<open>
  C5, amended. Decoding the \<open>favs\<close> parameter never lets an exception escape. When the
  fragment names a list, an absent or empty \<open>favs\<close> parameter gives the empty favorites list;
  a parameter on which decompression throws gives the empty list and one warning; a
  parameter for which decompression returns null or the empty text gives the empty list
  without a warning.
\<close>

theorem favs_decoding_fallback:
  assumes "truthy (searchParams_get br (''?'' @ fragment st) ''list'')"
  shows "(\<not> truthy (searchParams_get br (''?'' @ fragment st) ''favs'') \<longrightarrow>
            favorites (step br (Load r1 r2) st) = [] \<and>
            warnings (step br (Load r1 r2) st) = warnings st) \<and>
         (searchParams_get br (''?'' @ fragment st) ''favs'' = Some enc \<and> enc \<noteq> [] \<longrightarrow>
            (decompressFromEncodedURIComponent br enc = Throws \<longrightarrow>
               favs_try br (Some enc) = Inl () \<and>
               favorites (step br (Load r1 r2) st) = [] \<and>
               warnings (step br (Load r1 r2) st) = warnings st + 1) \<and>
            (decompressFromEncodedURIComponent br enc = Null \<or>
             decompressFromEncodedURIComponent br enc = Text [] \<longrightarrow>
               favorites (step br (Load r1 r2) st) = [] \<and>
               warnings (step br (Load r1 r2) st) = warnings st))"
proof -
  let ?fe = "searchParams_get br (''?'' @ fragment st) ''favs''"
  have fv: "favorites (step br (Load r1 r2) st) = fst (favsFromUrl br ?fe)"
    and wn: "warnings (step br (Load r1 r2) st) =
               warnings st + (if snd (favsFromUrl br ?fe) then 1 else 0)"
    by (simp_all add: loadInitialList_list[OF assms])
  have none: "favsFromUrl br ?fe = ([], False)" if "\<not> truthy ?fe"
    using that by (auto simp: favsFromUrl_def favs_try_def truthy_def split: option.splits)
  have thr: "favs_try br (Some enc) = Inl () \<and> favsFromUrl br (Some enc) = ([], True)"
    if "enc \<noteq> []" "decompressFromEncodedURIComponent br enc = Throws"
    using that by (simp add: favsFromUrl_def favs_try_def)
  have nul: "favsFromUrl br (Some enc) = ([], False)"
    if "enc \<noteq> []" "decompressFromEncodedURIComponent br enc = Null \<or>
                       decompressFromEncodedURIComponent br enc = Text []"
    using that by (auto simp: favsFromUrl_def favs_try_def)
  show ?thesis
    unfolding fv wn using none thr nul by auto
qed

theorem favs_decoding_fallback_witness:
  "truthy (searchParams_get sample_browser (''?'' @ fragment shared_link_state) ''list'') \<and>
   \<not> truthy (searchParams_get sample_browser (''?'' @ fragment shared_link_state) ''favs'') \<and>
   favorites (step sample_browser (Load 0 0) shared_link_state) = [] \<and>
   warnings (step sample_browser (Load 0 0) shared_link_state) = 0 \<and>
   truthy (searchParams_get sample_browser (''?'' @ fragment broken_link_state) ''list'') \<and>
   searchParams_get sample_browser (''?'' @ fragment broken_link_state) ''favs'' = Some ''!'' \<and>
   decompressFromEncodedURIComponent sample_browser ''!'' = Throws \<and>
   favorites (step sample_browser (Load 0 0) broken_link_state) = [] \<and>
   warnings (step sample_browser (Load 0 0) broken_link_state) = 1 \<and>
   truthy (searchParams_get sample_browser (''?'' @ fragment rejected_link_state) ''list'') \<and>
   searchParams_get sample_browser (''?'' @ fragment rejected_link_state) ''favs'' = Some ''~'' \<and>
   decompressFromEncodedURIComponent sample_browser ''~'' = Null \<and>
   favorites (step sample_browser (Load 0 0) rejected_link_state) = [] \<and>
   warnings (step sample_browser (Load 0 0) rejected_link_state) = 0"
proof -
  have l1: "searchParams_get sample_browser (''?'' @ fragment shared_link_state) ''list'' = Some ''mine''"
    by code_simp
  have f1: "searchParams_get sample_browser (''?'' @ fragment shared_link_state) ''favs'' = None"
    by code_simp
  have l2: "searchParams_get sample_browser (''?'' @ fragment broken_link_state) ''list'' = Some ''mine''"
    by code_simp
  have f2: "searchParams_get sample_browser (''?'' @ fragment broken_link_state) ''favs'' = Some ''!''"
    by code_simp
  have l3: "searchParams_get sample_browser (''?'' @ fragment rejected_link_state) ''list'' = Some ''mine''"
    by code_simp
  have f3: "searchParams_get sample_browser (''?'' @ fragment rejected_link_state) ''favs'' = Some ''~''"
    by code_simp
  have d1: "decompressFromEncodedURIComponent sample_browser ''!'' = Throws" by code_simp
  have d2: "decompressFromEncodedURIComponent sample_browser ''~'' = Null" by code_simp
  have w: "warnings shared_link_state = 0" "warnings broken_link_state = 0"
    "warnings rejected_link_state = 0"
    by (simp_all add: shared_link_state_def broken_link_state_def rejected_link_state_def
        empty_state_def)
  have t1: "truthy (searchParams_get sample_browser (''?'' @ fragment shared_link_state) ''list'')"
    and t2: "truthy (searchParams_get sample_browser (''?'' @ fragment broken_link_state) ''list'')"
    and t3: "truthy (searchParams_get sample_browser (''?'' @ fragment rejected_link_state) ''list'')"
    unfolding l1 l2 l3 by (simp_all add: truthy_def)
  show ?thesis
    using favs_decoding_fallback[OF t1, of 0 0 "''!''"] favs_decoding_fallback[OF t2, of 0 0 "''!''"]
      favs_decoding_fallback[OF t3, of 0 0 "''~''"]
    unfolding l1 f1 l2 f2 l3 f3 d1 d2 w
    by (simp add: truthy_def)
qed

text \<open>
  C6. The claim asks that migration stores the legacy array under a new key. The name is
  drawn from sixty-four and is not compared with the lists in storage, as the Create button
  does with its name. With the legacy array \<open>X1, X2\<close>, a stored list \<open>sleepy-turtle\<close> holding
  \<open>Z9\<close>, and the random values that draw \<open>sleepy\<close> and \<open>turtle\<close>, migration stores the legacy
  array under the key of that list: no key is new, and \<open>Z9\<close> is lost. Other random values draw
  another name.
\<close>

theorem legacy_migration_overwrites:
  "\<not> truthy (searchParams_get sample_browser (''?'' @ fragment collision_state) ''list'') \<and>
   getItem (localStorage collision_state) ''favorites'' = Some [''X1'', ''X2''] \<and>
   getItem (localStorage collision_state) ''favorites:sleepy-turtle'' = Some [''Z9''] \<and>
   generateRandomListName (3 / 8) (7 / 8) = ''sleepy-turtle'' \<and>
   generateRandomListName 0 (1 / 8) = ''brave-fox'' \<and>
   listKey (step sample_browser (Load (3 / 8) (7 / 8)) collision_state) = Some ''sleepy-turtle'' \<and>
   localStorage (step sample_browser (Load (3 / 8) (7 / 8)) collision_state)
     = [(''favorites:sleepy-turtle'', [''X1'', ''X2''])] \<and>
   list_names (localStorage (step sample_browser (Load (3 / 8) (7 / 8)) collision_state))
     = list_names (localStorage collision_state)"
  by code_simp

text \<open>
  C7. A confirmed deletion removes the entry of the deleted list. When the deleted list was
  the active one and the key scan after the removal finds a first list, with a non-empty
  name, that list becomes active, its stored favorites are loaded, and the fragment is
  rewritten for it. When the deleted list was the active one and the only list, no list is
  active afterwards, the favorites are empty and the fragment is cleared.
\<close>

theorem delete_list_fallback:
  "getItem (localStorage (step br (Delete True key) st)) (favorites_key key) = None \<and>
   (listKey st = Some key \<and>
    list_names (removeItem (favorites_key key) (localStorage st)) = fk # rest \<and> fk \<noteq> [] \<longrightarrow>
      listKey (step br (Delete True key) st) = Some fk \<and>
      favorites (step br (Delete True key) st)
        = stored_list (localStorage st) (favorites_key fk) \<and>
      fragment (step br (Delete True key) st)
        = assign_hash (''list='' @ fk @ ''&favs='' @
            compressToEncodedURIComponent br
              (join '','' (stored_list (localStorage st) (favorites_key fk))))) \<and>
   (listKey st = Some key \<and> list_names (localStorage st) = [key] \<longrightarrow>
      listKey (step br (Delete True key) st) = None \<and>
      favorites (step br (Delete True key) st) = [] \<and>
      fragment (step br (Delete True key) st) = [])"
proof (intro conjI impI)
  show "getItem (localStorage (step br (Delete True key) st)) (favorites_key key) = None"
    by (rule delete_removes_entry)
next
  let ?rem = "removeItem (favorites_key key) (localStorage st)"
  assume a: "listKey st = Some key \<and> list_names ?rem = fk # rest \<and> fk \<noteq> []"
  then have "fk \<in> set (list_names ?rem)" by simp
  then have "fk \<noteq> key" using list_names_removeItem[of fk key "localStorage st"] by blast
  then have same: "stored_list ?rem (favorites_key fk)
                     = stored_list (localStorage st) (favorites_key fk)"
    by (simp add: stored_list_def getItem_removeItem)
  from a have lk: "listKey st = Some key" and ln: "list_names ?rem = fk # rest" and ne: "fk \<noteq> []"
    by simp_all
  have eq: "step br (Delete True key) st = run_effects br
             (st\<lparr>localStorage := ?rem,
                 listKey := Some fk,
                 favorites := stored_list ?rem (favorites_key fk),
                 fragment := assign_hash (''list='' @ fk @ ''&favs='' @
                    compressToEncodedURIComponent br
                      (join '','' (stored_list ?rem (favorites_key fk)))),
                 favoriteLists := list_names ?rem\<rparr>)"
    by (rule delete_active_fallback[OF lk ln ne])
  show "listKey (step br (Delete True key) st) = Some fk"
    by (simp only: eq) simp
  show "favorites (step br (Delete True key) st)
        = stored_list (localStorage st) (favorites_key fk)"
    by (simp only: eq) (simp add: same)
  show "fragment (step br (Delete True key) st)
        = assign_hash (''list='' @ fk @ ''&favs='' @
            compressToEncodedURIComponent br
              (join '','' (stored_list (localStorage st) (favorites_key fk))))"
    using ne by (simp only: eq) (simp add: run_effects_active[where k = fk] same)
next
  let ?rem = "removeItem (favorites_key key) (localStorage st)"
  assume a: "listKey st = Some key \<and> list_names (localStorage st) = [key]"
  have "n \<notin> set (list_names ?rem)" for n
    using a list_names_removeItem[of n key "localStorage st"] by auto
  then have e: "list_names ?rem = []" by (cases "list_names ?rem") auto
  from a have lk: "listKey st = Some key" by simp
  have eq: "step br (Delete True key) st =
           run_effects br
             (st\<lparr>localStorage := ?rem, listKey := None, favorites := [], fragment := [],
                 favoriteLists := []\<rparr>)"
    by (rule delete_active_last[OF lk e])
  show "listKey (step br (Delete True key) st) = None" by (simp only: eq) simp
  show "favorites (step br (Delete True key) st) = []" by (simp only: eq) simp
  show "fragment (step br (Delete True key) st) = []"
    by (simp only: eq) (simp add: run_effects_no_list truthy_def)
qed

theorem delete_list_fallback_witness:
  "listKey trip_state = Some ''trip'' \<and>
   list_names (removeItem (favorites_key ''trip'') (localStorage trip_state)) = [''west''] \<and>
   getItem (localStorage (step sample_browser (Delete True ''trip'') trip_state)) ''favorites:trip'' = None \<and>
   listKey (step sample_browser (Delete True ''trip'') trip_state) = Some ''west'' \<and>
   favorites (step sample_browser (Delete True ''trip'') trip_state) = [''W1''] \<and>
   fragment (step sample_browser (Delete True ''trip'') trip_state) = ''list=west&favs=1W'' \<and>
   listKey solo_state = Some ''trip'' \<and> list_names (localStorage solo_state) = [''trip''] \<and>
   listKey (step sample_browser (Delete True ''trip'') solo_state) = None \<and>
   favorites (step sample_browser (Delete True ''trip'') solo_state) = [] \<and>
   fragment (step sample_browser (Delete True ''trip'') solo_state) = []"
proof -
  have k1: "listKey trip_state = Some ''trip''" by (simp add: trip_state_def)
  have n1: "list_names (removeItem (favorites_key ''trip'') (localStorage trip_state)) = [''west'']"
    by code_simp
  have s1: "stored_list (localStorage trip_state) (favorites_key ''west'') = [''W1'']"
    by code_simp
  have k2: "listKey solo_state = Some ''trip''" by (simp add: solo_state_def)
  have n2: "list_names (localStorage solo_state) = [''trip'']" by code_simp
  have c: "compressToEncodedURIComponent sample_browser = rev" by (simp add: sample_browser_def)
  have h: "assign_hash ''list=west&favs=1W'' = ''list=west&favs=1W''" by code_simp
  show ?thesis
    using delete_list_fallback[of sample_browser "''trip''" trip_state "''west''" "[]"]
      delete_list_fallback[of sample_browser "''trip''" solo_state "[]" "[]"]
    unfolding k1 n1 s1 k2 n2 c
    by (simp add: favorites_key_def h)
qed

text \<open>
  C8. The claim asks that a hall id that is not in the table gets the fallback level \<open>-2\<close>.
  The table is an object literal read with \<open>hallZoomLevels[hallId]\<close>, so the hall id
  \<open>toString\<close>, which is not among its eleven entries, reads the function that every object
  inherits under that name. The function is truthy, \<open>|| -2\<close> leaves it in place, and the print
  zoom is that function instead of \<open>-2\<close>; so it is for \<open>constructor\<close>. A hall id such as \<open>8\<close>,
  which names neither an entry nor an inherited member, gets \<open>-2\<close>.
\<close>

theorem print_zoom_inherited_member:
  "length hallZoomLevels = 11 \<and>
   map_of hallZoomLevels ''toString'' = None \<and>
   printZoom None (Some ''toString'') = Inherited ''toString'' \<and>
   printZoom None (Some ''toString'') \<noteq> Level (Num (- 2)) \<and>
   map_of hallZoomLevels ''constructor'' = None \<and>
   printZoom None (Some ''constructor'') = Inherited ''constructor'' \<and>
   map_of hallZoomLevels ''8'' = None \<and>
   printZoom None (Some ''8'') = Level (Num (- 2))"
  by (simp add: printZoom_def hallZoomLevels_at_def zoom_or_def hallZoomLevels_def
      object_prototype_members_def)

text \<open>
  C9. With no active list, a toggle is carried out all the same: the in-memory favorites
  change, they are stored under the key \<open>favorites:null\<close>, and the fragment stays as it was.
\<close>

theorem toggle_without_list:
  assumes "listKey st = None"
  shows "favorites (step br (Toggle l) st) =
           (if l \<in> set (favorites st) then filter (\<lambda>f. f \<noteq> l) (favorites st)
            else favorites st @ [l]) \<and>
         favorites (step br (Toggle l) st) \<noteq> favorites st \<and>
         getItem (localStorage (step br (Toggle l) st)) ''favorites:null''
           = Some (favorites (step br (Toggle l) st)) \<and>
         fragment (step br (Toggle l) st) = fragment st \<and>
         listKey (step br (Toggle l) st) = None"
proof -
  have nl: "\<not> truthy (listKey (toggleFavorite l st))"
    using assms by (simp add: toggleFavorite_def Let_def truthy_def)
  have neq: "filter (\<lambda>f. f \<noteq> l) (favorites st) \<noteq> favorites st" if "l \<in> set (favorites st)"
    using that by (simp add: filter_id_conv)
  show ?thesis
    using assms neq run_effects_no_list[OF nl, of br]
    by (simp add: toggleFavorite_def Let_def template_key_def getItem_setItem favorites_key_null)
qed

theorem toggle_without_list_witness:
  "listKey empty_state = None \<and>
   favorites (step sample_browser (Toggle ''A1'') empty_state) = [''A1''] \<and>
   localStorage (step sample_browser (Toggle ''A1'') empty_state) = [(''favorites:null'', [''A1''])] \<and>
   fragment (step sample_browser (Toggle ''A1'') empty_state) = []"
proof -
  have n: "listKey empty_state = None" by (simp add: empty_state_def)
  have s: "localStorage (step sample_browser (Toggle ''A1'') empty_state) = [(''favorites:null'', [''A1''])]"
    by code_simp
  from toggle_without_list[OF n, of sample_browser "''A1''"] n s show ?thesis by (simp add: empty_state_def)
qed



end
